theory Spec2Isabelle
  imports Main
begin

section \<open>Data model of \<open>main.py\<close>\<close>

text \<open>
  The service has three handlers (\<open>/transcribe\<close>, \<open>/enhance\<close>,
  \<open>/transcribe-and-enhance\<close>) over one process-wide variable, \<open>whisper_model\<close>,
  the process environment and the file system. Everything a handler does besides
  returning a value is explicit here: the state is a record that every function takes and
  returns, an exception is the \<open>Inl\<close> of a sum, and the libraries the handlers call
  (\<open>whisper\<close>, \<open>anthropic\<close>, \<open>tempfile\<close>, \<open>os\<close>) are a record of functions
  the model is parametric in, since their code is not part of the repository.
\<close>

type_synonym path = string
type_synonym bytes = string

text \<open>
  A Python exception: FastAPI's \<open>HTTPException(status_code, detail)\<close>, or any other
  subclass of \<open>Exception\<close> with its class name and its \<open>str(e)\<close>.
\<close>

datatype exn = HTTPException nat string | PyException string string

text \<open>The object \<open>whisper.load_model\<close> returns.\<close>

datatype handle = Handle nat

text \<open>
  The library calls a handler performs, in order. The list \<open>calls\<close> of the state
  records them; the source keeps no such list, it is there so that "before any network
  call" and "exactly one load" can be stated.
\<close>

datatype call =
    NamedTemporaryFile string
  | TmpWrite path
  | LoadModel string
  | ModelTranscribe handle path
  | OsUnlink path
  | MessagesCreate string string nat "(string \<times> string) list"

record libs =
  splitext :: "string \<Rightarrow> string \<times> string"
  mktemp :: "string \<Rightarrow> (path \<rightharpoonup> bytes) \<Rightarrow> exn + path"
  write_error :: "path \<Rightarrow> bytes \<Rightarrow> exn option"
  unlink_error :: "path \<Rightarrow> exn option"
  load_model :: "string \<Rightarrow> exn + handle"
  model_transcribe :: "handle \<Rightarrow> path \<Rightarrow> bytes option \<Rightarrow> exn + (string \<rightharpoonup> string)"
  messages_create :: "string \<Rightarrow> string \<Rightarrow> nat \<Rightarrow> (string \<times> string) list \<Rightarrow> exn + string list"
  http_exception_str :: "nat \<Rightarrow> string \<Rightarrow> string"

text \<open>
  \<^item> \<open>splitext\<close> is \<open>os.path.splitext\<close>;
  \<^item> \<open>mktemp suffix fs\<close> is the name \<open>tempfile.NamedTemporaryFile(delete=False,
    suffix=suffix)\<close> creates on the file system \<open>fs\<close>, or the exception it raises;
  \<^item> \<open>write_error p content\<close> is the exception \<open>tmp.write(content)\<close> raises, if any;
  \<^item> \<open>unlink_error p\<close> is the exception \<open>os.unlink(p)\<close> raises on an existing file,
    if any (a permission error, a file still held open on Windows);
  \<^item> \<open>load_model name\<close> is \<open>whisper.load_model(name)\<close>;
  \<^item> \<open>model_transcribe m p c\<close> is \<open>m.transcribe(p)\<close> where \<open>c\<close> is what the file
    system holds at \<open>p\<close>; the result is the dictionary the library returns;
  \<^item> \<open>messages_create key model max_tokens messages\<close> is
    \<open>anthropic.Anthropic(api_key=key).messages.create(...)\<close>; a returned message is the
    list of the texts of its content blocks; each message of the request is a pair of its
    role and its content;
  \<^item> \<open>http_exception_str status detail\<close> is \<open>str(HTTPException(status, detail))\<close>.
\<close>

record world =
  whisper_model :: "handle option"
  environ :: "string \<rightharpoonup> string"
  files :: "path \<rightharpoonup> bytes"
  calls :: "call list"

text \<open>
  An \<open>UploadFile\<close>: its optional file name and what \<open>await audio.read()\<close> gives.
\<close>

record upload_file =
  filename :: "string option"
  read_result :: "exn + bytes"

record enhance_request =
  req_text :: string
  req_task :: string

record transcribe_response =
  tr_success :: bool
  tr_text :: string
  tr_language :: string

record enhance_response =
  en_success :: bool
  en_original :: string
  en_enhanced :: string
  en_task :: string

record combined_response =
  success :: bool
  raw_transcription :: string
  enhanced_text :: string
  language :: string
  task :: string

section \<open>Python primitives\<close>

definition str_exn :: "libs \<Rightarrow> exn \<Rightarrow> string" where
  "str_exn L e =
     (case e of
        HTTPException sc d \<Rightarrow> http_exception_str L sc d
      | PyException cls msg \<Rightarrow> msg)"

definition log_call :: "call \<Rightarrow> world \<Rightarrow> world" where
  "log_call c s = s\<lparr>calls := calls s @ [c]\<rparr>"

text \<open>\<open>os.getenv(k, default)\<close>.\<close>

definition getenv_or :: "world \<Rightarrow> string \<Rightarrow> string \<Rightarrow> string" where
  "getenv_or s k dflt = (case environ s k of None \<Rightarrow> dflt | Some v \<Rightarrow> v)"

text \<open>\<open>d[k]\<close> and \<open>d.get(k, default)\<close> on a dictionary literal.\<close>

definition quote :: "string \<Rightarrow> string" where
  "quote k = [CHR 0x27] @ k @ [CHR 0x27]"

definition dict_item :: "(string \<times> 'v) list \<Rightarrow> string \<Rightarrow> exn + 'v" where
  "dict_item d k =
     (case map_of d k of
        None \<Rightarrow> Inl (PyException ''KeyError'' (quote k))
      | Some v \<Rightarrow> Inr v)"

definition dict_get :: "(string \<times> 'v) list \<Rightarrow> string \<Rightarrow> 'v \<Rightarrow> 'v" where
  "dict_get d k dflt = (case map_of d k of None \<Rightarrow> dflt | Some v \<Rightarrow> v)"

text \<open>
  \<open>os.unlink(p)\<close>: a missing file raises \<open>FileNotFoundError\<close>; an existing one is
  removed unless the operating system refuses, and then it stays.
\<close>

definition os_unlink :: "libs \<Rightarrow> world \<Rightarrow> path \<Rightarrow> world \<times> (exn + unit)" where
  "os_unlink L s p =
     (let s1 = log_call (OsUnlink p) s in
      case files s p of
        None \<Rightarrow>
          (s1, Inl (PyException ''FileNotFoundError''
                      (''[Errno 2] No such file or directory: '' @ quote p)))
      | Some c \<Rightarrow>
          (case unlink_error L p of
             Some e \<Rightarrow> (s1, Inl e)
           | None \<Rightarrow> (s1\<lparr>files := (files s1)(p := None)\<rparr>, Inr ())))"

section \<open>The transcription model handle (lines 33-40)\<close>

definition get_whisper_model :: "libs \<Rightarrow> world \<Rightarrow> world \<times> (exn + handle)" where
  "get_whisper_model L s =
     (case whisper_model s of
        None \<Rightarrow>
          (let name = getenv_or s ''WHISPER_MODEL'' ''base'';
               s1 = log_call (LoadModel name) s
           in case load_model L name of
                Inl e \<Rightarrow> (s1, Inl e)
              | Inr m \<Rightarrow> (s1\<lparr>whisper_model := Some m\<rparr>, Inr m))
      | Some m \<Rightarrow> (s, Inr m))"

section \<open>The API client (lines 45-50)\<close>

text \<open>The client is represented by the key it was built with.\<close>

definition get_claude_client :: "world \<Rightarrow> exn + string" where
  "get_claude_client s =
     (case environ s ''ANTHROPIC_API_KEY'' of
        None \<Rightarrow> Inl (HTTPException 500 ''ANTHROPIC_API_KEY not configured'')
      | Some api_key \<Rightarrow>
          if api_key = [] then Inl (HTTPException 500 ''ANTHROPIC_API_KEY not configured'')
          else Inr api_key)"

section \<open>\<open>GET /\<close> (lines 58-60)\<close>

definition root :: "(string \<times> string) list" where
  "root = [(''message'', ''Speech to Text API''), (''status'', ''running'')]"

section \<open>\<open>POST /transcribe\<close> (lines 63-87)\<close>

text \<open>
  Lines 70-74: the suffix, and the \<open>with\<close> block that creates the temporary file
  (\<open>delete=False\<close>), reads the upload and writes it. An exception inside the block
  leaves the block, and the handler, with the file created.
\<close>

definition upload_suffix :: "libs \<Rightarrow> upload_file \<Rightarrow> string" where
  "upload_suffix L audio =
     (let ext = snd (splitext L (case filename audio of None \<Rightarrow> [] | Some f \<Rightarrow> f))
      in if ext = [] then ''.wav'' else ext)"

definition store_upload :: "libs \<Rightarrow> world \<Rightarrow> upload_file \<Rightarrow> world \<times> (exn + path)" where
  "store_upload L s audio =
     (let suffix = upload_suffix L audio;
          s1 = log_call (NamedTemporaryFile suffix) s
      in case mktemp L suffix (files s) of
           Inl e \<Rightarrow> (s1, Inl e)
         | Inr tmp_path \<Rightarrow>
             (let s2 = s1\<lparr>files := (files s1)(tmp_path \<mapsto> [])\<rparr>
              in case read_result audio of
                   Inl e \<Rightarrow> (s2, Inl e)
                 | Inr content \<Rightarrow>
                     (let s3 = log_call (TmpWrite tmp_path) s2
                      in case write_error L tmp_path content of
                           Some e \<Rightarrow> (s3, Inl e)
                         | None \<Rightarrow> (s3\<lparr>files := (files s3)(tmp_path \<mapsto> content)\<rparr>, Inr tmp_path))))"

text \<open>
  Lines 76-85: the \<open>try\<close> block and its \<open>except Exception\<close> clause. Its value is the
  outcome of the handler as the \<open>finally\<close> clause finds it: the response to return, or the
  \<open>HTTPException\<close> to raise.
\<close>

definition transcribe_try ::
  "libs \<Rightarrow> world \<Rightarrow> path \<Rightarrow> world \<times> (exn + transcribe_response)" where
  "transcribe_try L s tmp_path =
     (case get_whisper_model L s of
        (s1, Inl e) \<Rightarrow>
          (s1, Inl (HTTPException 500 (''Transcription failed: '' @ str_exn L e)))
      | (s1, Inr model) \<Rightarrow>
          (let s2 = log_call (ModelTranscribe model tmp_path) s1
           in case model_transcribe L model tmp_path (files s1 tmp_path) of
                Inl e \<Rightarrow>
                  (s2, Inl (HTTPException 500 (''Transcription failed: '' @ str_exn L e)))
              | Inr result \<Rightarrow>
                  (case result ''text'' of
                     None \<Rightarrow>
                       (s2, Inl (HTTPException 500
                                   (''Transcription failed: '' @ quote ''text'')))
                   | Some t \<Rightarrow>
                       (s2, Inr \<lparr>tr_success = True, tr_text = t,
                                 tr_language =
                                   (case result ''language'' of
                                      None \<Rightarrow> ''unknown'' | Some l \<Rightarrow> l)\<rparr>))))"

text \<open>
  Lines 86-87: the \<open>finally\<close> clause. An exception raised in it replaces the pending
  return value or exception, as Python's \<open>finally\<close> does.
\<close>

definition transcribe_finally ::
  "libs \<Rightarrow> world \<Rightarrow> path \<Rightarrow> exn + transcribe_response \<Rightarrow>
     world \<times> (exn + transcribe_response)" where
  "transcribe_finally L s tmp_path outcome =
     (case os_unlink L s tmp_path of
        (s1, Inl e) \<Rightarrow> (s1, Inl e)
      | (s1, Inr u) \<Rightarrow> (s1, outcome))"

definition transcribe_audio ::
  "libs \<Rightarrow> world \<Rightarrow> upload_file \<Rightarrow> world \<times> (exn + transcribe_response)" where
  "transcribe_audio L s audio =
     (if filename audio = None \<or> filename audio = Some []
      then (s, Inl (HTTPException 400 ''No audio file provided''))
      else case store_upload L s audio of
             (s1, Inl e) \<Rightarrow> (s1, Inl e)
           | (s1, Inr tmp_path) \<Rightarrow>
               (case transcribe_try L s1 tmp_path of
                  (s2, outcome) \<Rightarrow> transcribe_finally L s2 tmp_path outcome))"

section \<open>\<open>POST /enhance\<close> (lines 90-121)\<close>

definition prompts :: "(string \<times> string) list" where
  "prompts =
     [(''cleanup'', ''Clean up this transcribed speech. Fix grammar, punctuation, and formatting while preserving the original meaning. Return only the cleaned text:''),
      (''summarize'', ''Summarize this transcribed speech concisely, capturing the key points:''),
      (''action_items'', ''Extract action items and key tasks from this transcribed speech. Format as a bullet list:''),
      (''format'', ''Format this transcribed speech into well-structured paragraphs with proper punctuation and headings where appropriate:'')]"

text \<open>Line 100: \<open>prompts.get(request.task, prompts["cleanup"])\<close>.\<close>

definition select_prompt :: "string \<Rightarrow> exn + string" where
  "select_prompt t =
     (case dict_item prompts ''cleanup'' of
        Inl e \<Rightarrow> Inl e
      | Inr dflt \<Rightarrow> Inr (dict_get prompts t dflt))"

definition claude_model :: string where
  "claude_model = ''claude-opus-4-5-20250514''"

definition user_message :: "string \<Rightarrow> string \<Rightarrow> (string \<times> string) list" where
  "user_message prompt txt = [(''user'', prompt @ [CHR 0x0A, CHR 0x0A] @ txt)]"

definition enhance_text ::
  "libs \<Rightarrow> world \<Rightarrow> enhance_request \<Rightarrow> world \<times> (exn + enhance_response)" where
  "enhance_text L s request =
     (case select_prompt (req_task request) of
        Inl e \<Rightarrow> (s, Inl e)
      | Inr prompt \<Rightarrow>
          (case get_claude_client s of
             Inl e \<Rightarrow> (s, Inl (HTTPException 500 (''Enhancement failed: '' @ str_exn L e)))
           | Inr client \<Rightarrow>
               (let messages = user_message prompt (req_text request);
                    s1 = log_call (MessagesCreate client claude_model 1024 messages) s
                in case messages_create L client claude_model 1024 messages of
                     Inl e \<Rightarrow>
                       (s1, Inl (HTTPException 500 (''Enhancement failed: '' @ str_exn L e)))
                   | Inr content \<Rightarrow>
                       (case content of
                          [] \<Rightarrow>
                            (s1, Inl (HTTPException 500
                                        ''Enhancement failed: list index out of range''))
                        | b # rest \<Rightarrow>
                            (s1, Inr \<lparr>en_success = True, en_original = req_text request,
                                      en_enhanced = b, en_task = req_task request\<rparr>)))))"

section \<open>\<open>POST /transcribe-and-enhance\<close> (lines 124-143)\<close>

definition transcribe_and_enhance ::
  "libs \<Rightarrow> world \<Rightarrow> upload_file \<Rightarrow> string \<Rightarrow> world \<times> (exn + combined_response)" where
  "transcribe_and_enhance L s audio tsk =
     (case transcribe_audio L s audio of
        (s1, Inl e) \<Rightarrow> (s1, Inl e)
      | (s1, Inr transcription) \<Rightarrow>
          (case enhance_text L s1 \<lparr>req_text = tr_text transcription, req_task = tsk\<rparr> of
             (s2, Inl e) \<Rightarrow> (s2, Inl e)
           | (s2, Inr enhanced) \<Rightarrow>
               (s2, Inr \<lparr>success = True,
                         raw_transcription = tr_text transcription,
                         enhanced_text = en_enhanced enhanced,
                         language = tr_language transcription,
                         task = tsk\<rparr>)))"

section \<open>Sequential executions\<close>

text \<open>
  A sequential execution of the process is a list of requests served one after the
  other, each on the state the one before left.
\<close>

datatype request =
    GetRoot
  | PostTranscribe upload_file
  | PostEnhance enhance_request
  | PostTranscribeAndEnhance upload_file string

fun handle_request :: "libs \<Rightarrow> world \<Rightarrow> request \<Rightarrow> world" where
  "handle_request L s GetRoot = s"
| "handle_request L s (PostTranscribe audio) = fst (transcribe_audio L s audio)"
| "handle_request L s (PostEnhance r) = fst (enhance_text L s r)"
| "handle_request L s (PostTranscribeAndEnhance audio tsk) =
     fst (transcribe_and_enhance L s audio tsk)"

fun serve :: "libs \<Rightarrow> world \<Rightarrow> request list \<Rightarrow> world" where
  "serve L s [] = s"
| "serve L s (r # rs) = serve L (handle_request L s r) rs"

fun is_load :: "call \<Rightarrow> bool" where
  "is_load (LoadModel n) = True"
| "is_load c = False"

definition loads :: "world \<Rightarrow> nat" where
  "loads s = length (filter is_load (calls s))"

text \<open>
  \<open>kept m s s'\<close>: from \<open>s\<close> to \<open>s'\<close> the handle is still \<open>m\<close> and
  \<open>whisper.load_model\<close> was not called.
\<close>

definition kept :: "handle \<Rightarrow> world \<Rightarrow> world \<Rightarrow> bool" where
  "kept m s s' \<longleftrightarrow> whisper_model s' = Some m \<and> loads s' = loads s"

text \<open>
  \<open>idle_or_loaded m s s'\<close>: from \<open>s\<close> to \<open>s'\<close> either the handle is still empty
  and \<open>whisper.load_model\<close> was not called, or it was called once and the handle is
  \<open>m\<close>.
\<close>

definition idle_or_loaded :: "handle \<Rightarrow> world \<Rightarrow> world \<Rightarrow> bool" where
  "idle_or_loaded m s s' \<longleftrightarrow>
     whisper_model s' = None \<and> loads s' = loads s
     \<or> whisper_model s' = Some m \<and> loads s' = Suc (loads s)"

section \<open>Example libraries, states and uploads\<close>

text \<open>
  Concrete libraries on which the handlers can be run. \<open>show_nat\<close> prints a number in
  decimal; \<open>ex_libs\<close> prints an \<open>HTTPException\<close> as Starlette's \<open>__str__\<close> does,
  \<open>"{status_code}: {detail}"\<close>, knows the model \<open>base\<close> only, and never fails
  otherwise.
\<close>

definition digit_char :: "nat \<Rightarrow> char" where
  "digit_char n = ''0123456789'' ! n"

function show_nat :: "nat \<Rightarrow> string" where
  "show_nat n =
     (if n < 10 then [digit_char n] else show_nat (n div 10) @ [digit_char (n mod 10)])"
  by pat_completeness auto
termination
  by (relation "measure id") auto

declare show_nat.simps [simp del]

definition ex_libs :: libs where
  "ex_libs =
     \<lparr>splitext = (\<lambda>f. if f = ''clip.mp3'' then (''clip'', ''.mp3'') else (f, [])),
      mktemp = (\<lambda>suffix fs. Inr (''/tmp/tmpa1b2c3'' @ suffix)),
      write_error = (\<lambda>p c. None),
      unlink_error = (\<lambda>p. None),
      load_model =
        (\<lambda>n. if n = ''base'' then Inr (Handle 0)
             else Inl (PyException ''RuntimeError'' (''Model '' @ n @ '' not found''))),
      model_transcribe =
        (\<lambda>m p c. case c of
             None \<Rightarrow> Inl (PyException ''RuntimeError'' ''Failed to load audio'')
           | Some b \<Rightarrow> Inr [''text'' \<mapsto> ''hello world'', ''language'' \<mapsto> ''en'']),
      messages_create = (\<lambda>k m n msgs. Inr (map (\<lambda>(r, c). ''Reply to: '' @ c) msgs)),
      http_exception_str = (\<lambda>sc d. show_nat sc @ '': '' @ d)\<rparr>"

text \<open>The same libraries on a file system that refuses to delete.\<close>

definition ex_libs_locked :: libs where
  "ex_libs_locked =
     ex_libs\<lparr>unlink_error :=
       (\<lambda>p. Some (PyException ''PermissionError''
                    (''[Errno 13] Permission denied: '' @ quote p)))\<rparr>"

text \<open>
  The same libraries with a remote API that fails, the message of its exception being
  the text an \<open>HTTPException\<close> prints.
\<close>

definition ex_libs_api_down :: libs where
  "ex_libs_api_down =
     ex_libs\<lparr>messages_create :=
       (\<lambda>k m n msgs. Inl (PyException ''APIStatusError''
                            ''500: ANTHROPIC_API_KEY not configured''))\<rparr>"

definition ex_world :: world where
  "ex_world =
     \<lparr>whisper_model = None, environ = [''ANTHROPIC_API_KEY'' \<mapsto> ''sk-test''],
      files = Map.empty, calls = []\<rparr>"

text \<open>A process with no API credential, and one configured with an unknown model.\<close>

definition ex_world_nokey :: world where
  "ex_world_nokey = ex_world\<lparr>environ := Map.empty\<rparr>"

definition ex_world_bogus :: world where
  "ex_world_bogus = ex_world\<lparr>environ := [''WHISPER_MODEL'' \<mapsto> ''bogus'']\<rparr>"

definition ex_audio :: upload_file where
  "ex_audio = \<lparr>filename = Some ''clip.mp3'', read_result = Inr ''RIFF''\<rparr>"

text \<open>An upload whose body cannot be read: the client went away.\<close>

definition ex_audio_gone :: upload_file where
  "ex_audio_gone =
     \<lparr>filename = Some ''clip.mp3'',
      read_result = Inl (PyException ''ClientDisconnect'' [])\<rparr>"

definition ex_tmp :: path where
  "ex_tmp = ''/tmp/tmpa1b2c3.mp3''"

section \<open>Frame lemmas\<close>

lemma log_call_fields [simp]:
  "whisper_model (log_call c s) = whisper_model s"
  "environ (log_call c s) = environ s"
  "files (log_call c s) = files s"
  "calls (log_call c s) = calls s @ [c]"
  by (simp_all add: log_call_def)

lemma loads_log_call [simp]: "loads (log_call c s) = (if is_load c then Suc (loads s) else loads s)"
  by (simp add: loads_def)

lemma loads_update [simp]:
  "loads (s\<lparr>files := f\<rparr>) = loads s"
  "loads (s\<lparr>whisper_model := w\<rparr>) = loads s"
  by (simp_all add: loads_def)


lemma transcribe_audio_unnamed:
  "filename a = None \<or> filename a = Some [] \<Longrightarrow>
     transcribe_audio L s a = (s, Inl (HTTPException 400 ''No audio file provided''))"
  by (simp add: transcribe_audio_def)

lemma transcribe_audio_unstored:
  "\<not> (filename a = None \<or> filename a = Some []) \<Longrightarrow> store_upload L s a = (s1, Inl e) \<Longrightarrow>
     transcribe_audio L s a = (s1, Inl e)"
  by (auto simp add: transcribe_audio_def)

lemma transcribe_audio_stored:
  "\<not> (filename a = None \<or> filename a = Some []) \<Longrightarrow> store_upload L s a = (s1, Inr p) \<Longrightarrow>
     transcribe_try L s1 p = (s2, out) \<Longrightarrow>
     transcribe_audio L s a = transcribe_finally L s2 p out"
  by (auto simp add: transcribe_audio_def)

subsection \<open>The environment is never written\<close>

lemma os_unlink_environ: "environ (fst (os_unlink L s p)) = environ s"
  by (simp add: os_unlink_def Let_def split: option.splits)

lemma get_whisper_model_environ: "environ (fst (get_whisper_model L s)) = environ s"
  by (simp add: get_whisper_model_def Let_def split: option.splits sum.splits)

lemma store_upload_environ: "environ (fst (store_upload L s a)) = environ s"
  by (simp add: store_upload_def Let_def split: option.splits sum.splits)

lemma transcribe_try_environ: "environ (fst (transcribe_try L s p)) = environ s"
  using get_whisper_model_environ [of L s]
  by (auto simp add: transcribe_try_def Let_def split: option.splits sum.splits prod.splits)

lemma transcribe_finally_environ: "environ (fst (transcribe_finally L s p out)) = environ s"
  using os_unlink_environ [of L s p]
  by (auto simp add: transcribe_finally_def split: sum.splits prod.splits)

lemma transcribe_audio_environ: "environ (fst (transcribe_audio L s a)) = environ s"
proof (cases "filename a = None \<or> filename a = Some []")
  case True
  then show ?thesis by (simp add: transcribe_audio_def)
next
  case False
  obtain s1 r1 where st: "store_upload L s a = (s1, r1)" by (cases "store_upload L s a")
  have e1: "environ s1 = environ s" using store_upload_environ [of L s a] st by simp
  show ?thesis
  proof (cases r1)
    case (Inl e)
    with transcribe_audio_unstored [OF False, of L s s1 e] st e1 show ?thesis by simp
  next
    case (Inr p)
    obtain s2 out where tr: "transcribe_try L s1 p = (s2, out)" by (cases "transcribe_try L s1 p")
    have e2: "environ s2 = environ s1" using transcribe_try_environ [of L s1 p] tr by simp
    have "environ (fst (transcribe_finally L s2 p out)) = environ s2"
      by (rule transcribe_finally_environ)
    with transcribe_audio_stored [OF False, of L s s1 p s2 out] st Inr tr e1 e2 show ?thesis by simp
  qed
qed

lemma enhance_text_environ: "environ (fst (enhance_text L s r)) = environ s"
  by (simp add: enhance_text_def Let_def split: option.splits sum.splits list.splits)

lemma enhance_text_result_environ:
  "environ s = environ s' \<Longrightarrow> snd (enhance_text L s r) = snd (enhance_text L s' r)"
  by (simp add: enhance_text_def get_claude_client_def Let_def split: option.splits sum.splits list.splits)

subsection \<open>A loaded handle stays\<close>

lemma os_unlink_kept: "whisper_model s = Some m \<Longrightarrow> kept m s (fst (os_unlink L s p))"
  by (simp add: kept_def os_unlink_def Let_def split: option.splits)

lemma get_whisper_model_kept: "whisper_model s = Some m \<Longrightarrow> get_whisper_model L s = (s, Inr m)"
  by (simp add: get_whisper_model_def)

lemma store_upload_kept: "whisper_model s = Some m \<Longrightarrow> kept m s (fst (store_upload L s a))"
  by (simp add: kept_def store_upload_def Let_def split: option.splits sum.splits)

lemma transcribe_try_kept: "whisper_model s = Some m \<Longrightarrow> kept m s (fst (transcribe_try L s p))"
  by (simp add: kept_def transcribe_try_def get_whisper_model_kept Let_def split: option.splits sum.splits)

lemma transcribe_finally_kept: "whisper_model s = Some m \<Longrightarrow> kept m s (fst (transcribe_finally L s p out))"
  using os_unlink_kept [of s m L p]
  by (auto simp add: transcribe_finally_def split: sum.splits prod.splits)

lemma kept_trans: "kept m s s1 \<Longrightarrow> kept m s1 s2 \<Longrightarrow> kept m s s2"
  by (simp add: kept_def)

lemma transcribe_audio_kept:
  assumes "whisper_model s = Some m"
  shows "kept m s (fst (transcribe_audio L s a))"
proof (cases "filename a = None \<or> filename a = Some []")
  case True
  with assms show ?thesis by (simp add: transcribe_audio_def kept_def)
next
  case False
  obtain s1 r1 where st: "store_upload L s a = (s1, r1)" by (cases "store_upload L s a")
  have k1: "kept m s s1" using store_upload_kept [OF assms, of L a] st by simp
  show ?thesis
  proof (cases r1)
    case (Inl e)
    with transcribe_audio_unstored [OF False, of L s s1 e] st k1 show ?thesis by simp
  next
    case (Inr p)
    obtain s2 out where tr: "transcribe_try L s1 p = (s2, out)" by (cases "transcribe_try L s1 p")
    have w1: "whisper_model s1 = Some m" using k1 by (simp add: kept_def)
    have k2: "kept m s1 s2" using transcribe_try_kept [OF w1, of L p] tr by simp
    have w2: "whisper_model s2 = Some m" using k2 by (simp add: kept_def)
    have k3: "kept m s2 (fst (transcribe_finally L s2 p out))"
      by (rule transcribe_finally_kept [OF w2])
    from transcribe_audio_stored [OF False, of L s s1 p s2 out] st Inr tr
    have "fst (transcribe_audio L s a) = fst (transcribe_finally L s2 p out)"
      by simp
    with k1 k2 k3 show ?thesis by (metis kept_trans)
  qed
qed

lemma enhance_text_kept: "whisper_model s = Some m \<Longrightarrow> kept m s (fst (enhance_text L s r))"
  by (simp add: kept_def enhance_text_def Let_def split: option.splits sum.splits list.splits)

lemma transcribe_and_enhance_kept:
  assumes "whisper_model s = Some m"
  shows "kept m s (fst (transcribe_and_enhance L s a t))"
proof -
  obtain s1 r1 where tr: "transcribe_audio L s a = (s1, r1)" by (cases "transcribe_audio L s a")
  have k1: "kept m s s1" using transcribe_audio_kept [OF assms, of L a] tr by simp
  show ?thesis
  proof (cases r1)
    case (Inl e)
    with tr k1 show ?thesis by (simp add: transcribe_and_enhance_def)
  next
    case (Inr x)
    have w1: "whisper_model s1 = Some m" using k1 by (simp add: kept_def)
    have "kept m s1 (fst (enhance_text L s1 \<lparr>req_text = tr_text x, req_task = t\<rparr>))"
      by (rule enhance_text_kept [OF w1])
    moreover have "fst (transcribe_and_enhance L s a t) = fst (enhance_text L s1 \<lparr>req_text = tr_text x, req_task = t\<rparr>)"
      using tr Inr by (simp add: transcribe_and_enhance_def split: prod.splits sum.splits)
    ultimately show ?thesis using k1 by (metis kept_trans)
  qed
qed

lemma handle_request_kept: "whisper_model s = Some m \<Longrightarrow> kept m s (handle_request L s r)"
  by (cases r) (simp_all add: transcribe_audio_kept enhance_text_kept transcribe_and_enhance_kept, simp add: kept_def)

lemma serve_kept: "whisper_model s = Some m \<Longrightarrow> kept m s (serve L s rs)"
proof (induction rs arbitrary: s)
  case Nil
  then show ?case by (simp add: kept_def)
next
  case (Cons r rs)
  have k: "kept m s (handle_request L s r)" by (rule handle_request_kept [OF Cons.prems])
  then have "whisper_model (handle_request L s r) = Some m" by (simp add: kept_def)
  from Cons.IH [OF this] k show ?case by (simp add: kept_def)
qed

section \<open>Unfolding and evaluation\<close>

lemmas ex_defs = ex_libs_def ex_libs_locked_def ex_libs_api_down_def ex_world_def
  ex_world_nokey_def ex_world_bogus_def ex_audio_def ex_audio_gone_def ex_tmp_def

lemmas handler_defs = transcribe_audio_def upload_suffix_def store_upload_def transcribe_try_def
  transcribe_finally_def os_unlink_def get_whisper_model_def getenv_or_def log_call_def
  enhance_text_def select_prompt_def dict_item_def dict_get_def prompts_def
  get_claude_client_def user_message_def claude_model_def str_exn_def quote_def
  transcribe_and_enhance_def

lemma select_prompt_eq:
  "select_prompt t =
     Inr (if t = ''cleanup'' then ''Clean up this transcribed speech. Fix grammar, punctuation, and formatting while preserving the original meaning. Return only the cleaned text:''
          else if t = ''summarize'' then ''Summarize this transcribed speech concisely, capturing the key points:''
          else if t = ''action_items'' then ''Extract action items and key tasks from this transcribed speech. Format as a bullet list:''
          else if t = ''format'' then ''Format this transcribed speech into well-structured paragraphs with proper punctuation and headings where appropriate:''
          else ''Clean up this transcribed speech. Fix grammar, punctuation, and formatting while preserving the original meaning. Return only the cleaned text:'')"
  by (simp add: select_prompt_def dict_item_def dict_get_def prompts_def)

lemma enhance_text_prompt_only:
  "select_prompt t = select_prompt t' \<Longrightarrow>
     fst (enhance_text L s \<lparr>req_text = x, req_task = t\<rparr>) =
       fst (enhance_text L s \<lparr>req_text = x, req_task = t'\<rparr>) \<and>
     map_sum id (en_task_update (\<lambda>_. t')) (snd (enhance_text L s \<lparr>req_text = x, req_task = t\<rparr>)) =
       snd (enhance_text L s \<lparr>req_text = x, req_task = t'\<rparr>)"
  by (simp add: enhance_text_def Let_def split: sum.splits list.splits)

subsection \<open>The temporary file\<close>

lemma get_whisper_model_files: "files (fst (get_whisper_model L s)) = files s"
  by (simp add: get_whisper_model_def Let_def split: option.splits sum.splits)

lemma transcribe_try_files: "files (fst (transcribe_try L s p)) = files s"
  using get_whisper_model_files [of L s]
  by (auto simp add: transcribe_try_def Let_def split: option.splits sum.splits prod.splits)

lemma store_upload_file: "store_upload L s a = (s1, Inr p) \<Longrightarrow> \<exists>c. files s1 p = Some c"
  by (auto simp add: store_upload_def Let_def split: option.splits sum.splits)

lemma transcribe_finally_calls:
  "calls (fst (transcribe_finally L s p out)) = calls s @ [OsUnlink p]"
  by (simp add: transcribe_finally_def os_unlink_def Let_def split: option.splits)

lemma transcribe_finally_removed:
  "files s p = Some c \<Longrightarrow> unlink_error L p = None \<Longrightarrow>
     snd (transcribe_finally L s p out) = out \<and>
     files (fst (transcribe_finally L s p out)) p = None"
  by (simp add: transcribe_finally_def os_unlink_def Let_def)

lemma transcribe_finally_refused:
  "files s p = Some c \<Longrightarrow> unlink_error L p = Some e \<Longrightarrow>
     snd (transcribe_finally L s p out) = Inl e \<and>
     files (fst (transcribe_finally L s p out)) p = Some c"
  by (simp add: transcribe_finally_def os_unlink_def Let_def)

subsection \<open>The composite handler, case by case\<close>

lemma transcribe_and_enhance_Inl1:
  "transcribe_audio L s audio = (s1, Inl e) \<Longrightarrow>
     transcribe_and_enhance L s audio tsk = (s1, Inl e)"
  by (simp add: transcribe_and_enhance_def)

lemma transcribe_and_enhance_Inl2:
  "transcribe_audio L s audio = (s1, Inr t) \<Longrightarrow>
   enhance_text L s1 \<lparr>req_text = tr_text t, req_task = tsk\<rparr> = (s2, Inl e) \<Longrightarrow>
     transcribe_and_enhance L s audio tsk = (s2, Inl e)"
  by (simp add: transcribe_and_enhance_def)

lemma transcribe_and_enhance_Inr:
  "transcribe_audio L s audio = (s1, Inr t) \<Longrightarrow>
   enhance_text L s1 \<lparr>req_text = tr_text t, req_task = tsk\<rparr> = (s2, Inr e) \<Longrightarrow>
     transcribe_and_enhance L s audio tsk =
       (s2, Inr \<lparr>success = True, raw_transcription = tr_text t,
                 enhanced_text = en_enhanced e, language = tr_language t, task = tsk\<rparr>)"
  by (simp add: transcribe_and_enhance_def)

subsection \<open>The first load\<close>

lemma getenv_or_environ: "environ s' = environ s \<Longrightarrow> getenv_or s' k d = getenv_or s k d"
  by (simp add: getenv_or_def)

lemma os_unlink_same:
  "whisper_model (fst (os_unlink L s p)) = whisper_model s \<and> loads (fst (os_unlink L s p)) = loads s"
  by (simp add: os_unlink_def Let_def split: option.splits)

lemma store_upload_same:
  "whisper_model (fst (store_upload L s a)) = whisper_model s \<and>
   loads (fst (store_upload L s a)) = loads s"
  by (simp add: store_upload_def Let_def split: option.splits sum.splits)

lemma transcribe_finally_same:
  "whisper_model (fst (transcribe_finally L s p out)) = whisper_model s \<and>
   loads (fst (transcribe_finally L s p out)) = loads s"
  using os_unlink_same [of L s p]
  by (auto simp add: transcribe_finally_def split: sum.splits prod.splits)

lemma enhance_text_same:
  "whisper_model (fst (enhance_text L s r)) = whisper_model s \<and>
   loads (fst (enhance_text L s r)) = loads s"
  by (simp add: enhance_text_def Let_def split: option.splits sum.splits list.splits)

lemma get_whisper_model_first:
  "whisper_model s = None \<Longrightarrow> load_model L (getenv_or s ''WHISPER_MODEL'' ''base'') = Inr m \<Longrightarrow>
     get_whisper_model L s =
       ((log_call (LoadModel (getenv_or s ''WHISPER_MODEL'' ''base'')) s)\<lparr>whisper_model := Some m\<rparr>,
        Inr m)"
  by (simp add: get_whisper_model_def Let_def)

lemma get_whisper_model_failed:
  "whisper_model s = None \<Longrightarrow> load_model L (getenv_or s ''WHISPER_MODEL'' ''base'') = Inl e \<Longrightarrow>
     get_whisper_model L s =
       (log_call (LoadModel (getenv_or s ''WHISPER_MODEL'' ''base'')) s, Inl e)"
  by (simp add: get_whisper_model_def Let_def)

lemma transcribe_try_first:
  "whisper_model s = None \<Longrightarrow> load_model L (getenv_or s ''WHISPER_MODEL'' ''base'') = Inr m \<Longrightarrow>
     whisper_model (fst (transcribe_try L s p)) = Some m \<and>
     loads (fst (transcribe_try L s p)) = Suc (loads s)"
  by (simp add: transcribe_try_def get_whisper_model_first Let_def split: option.splits sum.splits)

lemma transcribe_audio_first:
  assumes none: "whisper_model s = None"
    and ok: "load_model L (getenv_or s ''WHISPER_MODEL'' ''base'') = Inr m"
  shows "idle_or_loaded m s (fst (transcribe_audio L s a))"
proof (cases "filename a = None \<or> filename a = Some []")
  case True
  with none show ?thesis by (simp add: transcribe_audio_unnamed idle_or_loaded_def)
next
  case False
  obtain s1 r1 where st: "store_upload L s a = (s1, r1)" by (cases "store_upload L s a")
  have same1: "whisper_model s1 = whisper_model s" "loads s1 = loads s"
    using store_upload_same [of L s a] st by simp_all
  show ?thesis
  proof (cases r1)
    case (Inl e)
    with transcribe_audio_unstored [OF False, of L s s1 e] st same1 none show ?thesis
      by (simp add: idle_or_loaded_def)
  next
    case (Inr p)
    obtain s2 out where tr: "transcribe_try L s1 p = (s2, out)" by (cases "transcribe_try L s1 p")
    have "environ s1 = environ s" using store_upload_environ [of L s a] st by simp
    then have "getenv_or s1 ''WHISPER_MODEL'' ''base'' = getenv_or s ''WHISPER_MODEL'' ''base''"
      by (rule getenv_or_environ)
    with ok have ok1: "load_model L (getenv_or s1 ''WHISPER_MODEL'' ''base'') = Inr m" by simp
    have none1: "whisper_model s1 = None" using same1 none by simp
    have l2: "whisper_model s2 = Some m" "loads s2 = Suc (loads s1)"
      using transcribe_try_first [OF none1 ok1, of p] tr by simp_all
    have l3: "whisper_model (fst (transcribe_finally L s2 p out)) = whisper_model s2"
      "loads (fst (transcribe_finally L s2 p out)) = loads s2"
      using transcribe_finally_same [of L s2 p out] by simp_all
    from transcribe_audio_stored [OF False, of L s s1 p s2 out] st Inr tr
    have "fst (transcribe_audio L s a) = fst (transcribe_finally L s2 p out)" by simp
    with l2 l3 same1 show ?thesis by (simp add: idle_or_loaded_def)
  qed
qed

lemma transcribe_and_enhance_first:
  assumes none: "whisper_model s = None"
    and ok: "load_model L (getenv_or s ''WHISPER_MODEL'' ''base'') = Inr m"
  shows "idle_or_loaded m s (fst (transcribe_and_enhance L s a t))"
proof -
  obtain s1 r1 where tr: "transcribe_audio L s a = (s1, r1)" by (cases "transcribe_audio L s a")
  have i1: "idle_or_loaded m s s1" using transcribe_audio_first [OF none ok, of a] tr by simp
  show ?thesis
  proof (cases r1)
    case (Inl e)
    with transcribe_and_enhance_Inl1 [of L s a s1 e t] tr i1 show ?thesis by simp
  next
    case (Inr x)
    let ?req = "\<lparr>req_text = tr_text x, req_task = t\<rparr>"
    have "fst (transcribe_and_enhance L s a t) = fst (enhance_text L s1 ?req)"
      using tr Inr by (simp add: transcribe_and_enhance_def split: prod.splits sum.splits)
    with enhance_text_same [of L s1 ?req] i1 show ?thesis by (simp add: idle_or_loaded_def)
  qed
qed

lemma handle_request_first:
  assumes none: "whisper_model s = None"
    and ok: "load_model L (getenv_or s ''WHISPER_MODEL'' ''base'') = Inr m"
  shows "idle_or_loaded m s (handle_request L s r)"
proof (cases r)
  case GetRoot
  with none show ?thesis by (simp add: idle_or_loaded_def)
next
  case (PostTranscribe a)
  with transcribe_audio_first [OF none ok, of a] show ?thesis by simp
next
  case (PostEnhance q)
  with enhance_text_same [of L s q] none show ?thesis by (simp add: idle_or_loaded_def)
next
  case (PostTranscribeAndEnhance a t)
  with transcribe_and_enhance_first [OF none ok, of a t] show ?thesis by simp
qed

lemma handle_request_environ: "environ (handle_request L s r) = environ s"
proof (cases r)
  case GetRoot
  then show ?thesis by simp
next
  case (PostTranscribe a)
  then show ?thesis by (simp add: transcribe_audio_environ)
next
  case (PostEnhance q)
  then show ?thesis by (simp add: enhance_text_environ)
next
  case (PostTranscribeAndEnhance a t)
  obtain s1 r1 where tr: "transcribe_audio L s a = (s1, r1)" by (cases "transcribe_audio L s a")
  have e1: "environ s1 = environ s" using transcribe_audio_environ [of L s a] tr by simp
  have "environ (fst (transcribe_and_enhance L s a t)) = environ s"
  proof (cases r1)
    case (Inl e)
    with transcribe_and_enhance_Inl1 [of L s a s1 e t] tr e1 show ?thesis by simp
  next
    case (Inr x)
    let ?req = "\<lparr>req_text = tr_text x, req_task = t\<rparr>"
    have "fst (transcribe_and_enhance L s a t) = fst (enhance_text L s1 ?req)"
      using tr Inr by (simp add: transcribe_and_enhance_def split: prod.splits sum.splits)
    with enhance_text_environ [of L s1 ?req] e1 show ?thesis by simp
  qed
  with PostTranscribeAndEnhance show ?thesis by simp
qed

lemma serve_first:
  "whisper_model s = None \<Longrightarrow> load_model L (getenv_or s ''WHISPER_MODEL'' ''base'') = Inr m \<Longrightarrow>
     idle_or_loaded m s (serve L s rs)"
proof (induction rs arbitrary: s)
  case Nil
  then show ?case by (simp add: idle_or_loaded_def)
next
  case (Cons r rs)
  let ?s1 = "handle_request L s r"
  have step: "idle_or_loaded m s ?s1" by (rule handle_request_first [OF Cons.prems])
  show ?case
  proof (cases "whisper_model ?s1")
    case None
    with step have l: "loads ?s1 = loads s" by (simp add: idle_or_loaded_def)
    have "getenv_or ?s1 ''WHISPER_MODEL'' ''base'' = getenv_or s ''WHISPER_MODEL'' ''base''"
      by (rule getenv_or_environ) (rule handle_request_environ)
    with Cons.prems(2) have "load_model L (getenv_or ?s1 ''WHISPER_MODEL'' ''base'') = Inr m" by simp
    from Cons.IH [OF None this] l show ?thesis by (simp add: idle_or_loaded_def)
  next
    case (Some m')
    with step have m': "whisper_model ?s1 = Some m" and l: "loads ?s1 = Suc (loads s)"
      by (simp_all add: idle_or_loaded_def)
    from serve_kept [OF m', of L rs] l show ?thesis by (simp add: idle_or_loaded_def kept_def)
  qed
qed

subsection \<open>The example request, step by step\<close>

lemma ex_named: "\<not> (filename ex_audio = None \<or> filename ex_audio = Some [])"
  by (simp add: ex_audio_def)

lemma ex_store:
  "snd (store_upload ex_libs ex_world ex_audio) = Inr ex_tmp"
  "snd (store_upload ex_libs_locked ex_world ex_audio) = Inr ex_tmp"
  "snd (store_upload ex_libs_locked ex_world_bogus ex_audio) = Inr ex_tmp"
  by (simp_all add: handler_defs ex_defs Let_def)

lemma ex_unlink_error:
  "unlink_error ex_libs ex_tmp = None"
  "unlink_error ex_libs_locked ex_tmp =
     Some (PyException ''PermissionError'' (''[Errno 13] Permission denied: '' @ quote ex_tmp))"
  by (simp_all add: ex_defs)

lemma ex_try:
  "snd (transcribe_try ex_libs (fst (store_upload ex_libs ex_world ex_audio)) ex_tmp) =
     Inr \<lparr>tr_success = True, tr_text = ''hello world'', tr_language = ''en''\<rparr>"
  "snd (transcribe_try ex_libs_locked (fst (store_upload ex_libs_locked ex_world ex_audio)) ex_tmp) =
     Inr \<lparr>tr_success = True, tr_text = ''hello world'', tr_language = ''en''\<rparr>"
  "snd (transcribe_try ex_libs_locked (fst (store_upload ex_libs_locked ex_world_bogus ex_audio)) ex_tmp) =
     Inl (HTTPException 500 ''Transcription failed: Model bogus not found'')"
  by (simp_all add: handler_defs ex_defs Let_def)

section \<open>Claims\<close>

subsection \<open>\<open>/transcribe\<close>: the filename check\<close>

text \<open>
  Claim C9. A \<open>/transcribe\<close> request whose upload has no filename (\<open>None\<close>, or the
  empty string, which \<open>not audio.filename\<close> treats alike) raises
  \<open>HTTPException(400, "No audio file provided")\<close> and leaves the state as it was: no
  temporary file is created, the model is neither loaded nor invoked, no library call is
  made.
\<close>

theorem transcribe_audio_no_filename:
  "filename audio = None \<or> filename audio = Some [] \<Longrightarrow>
     transcribe_audio L s audio = (s, Inl (HTTPException 400 ''No audio file provided''))"
  by (simp add: transcribe_audio_def)

theorem transcribe_audio_no_filename_witness:
  "transcribe_audio ex_libs ex_world (ex_audio\<lparr>filename := None\<rparr>) =
     (ex_world, Inl (HTTPException 400 ''No audio file provided''))
   \<and> transcribe_audio ex_libs ex_world (ex_audio\<lparr>filename := Some []\<rparr>) =
     (ex_world, Inl (HTTPException 400 ''No audio file provided''))
   \<and> calls (fst (transcribe_audio ex_libs ex_world ex_audio)) \<noteq> calls ex_world"
  using transcribe_audio_no_filename [of "ex_audio\<lparr>filename := None\<rparr>" ex_libs ex_world]
    transcribe_audio_no_filename [of "ex_audio\<lparr>filename := Some []\<rparr>" ex_libs ex_world]
  by (simp add: handler_defs ex_defs Let_def)

subsection \<open>\<open>/enhance\<close>: the instruction table, the request sent, the response\<close>

text \<open>
  Claim C4. The \<open>prompts\<close> table has exactly the four keys \<open>cleanup\<close>,
  \<open>summarize\<close>, \<open>action_items\<close>, \<open>format\<close>; each selects its own instruction; any
  other task selects the \<open>cleanup\<close> instruction, and raises nothing: on every library,
  state and text the handler then does what it does for \<open>cleanup\<close>, leaves the same
  state and gives the same outcome but for the echoed \<open>task\<close> field.
\<close>

theorem prompts_table:
  "map fst prompts = [''cleanup'', ''summarize'', ''action_items'', ''format'']
   \<and> select_prompt ''cleanup'' = Inr ''Clean up this transcribed speech. Fix grammar, punctuation, and formatting while preserving the original meaning. Return only the cleaned text:''
   \<and> select_prompt ''summarize'' = Inr ''Summarize this transcribed speech concisely, capturing the key points:''
   \<and> select_prompt ''action_items'' = Inr ''Extract action items and key tasks from this transcribed speech. Format as a bullet list:''
   \<and> select_prompt ''format'' = Inr ''Format this transcribed speech into well-structured paragraphs with proper punctuation and headings where appropriate:''
   \<and> (\<forall>t. t \<notin> set (map fst prompts) \<longrightarrow>
          select_prompt t = select_prompt ''cleanup''
          \<and> (\<forall>L s x.
                fst (enhance_text L s \<lparr>req_text = x, req_task = t\<rparr>) =
                  fst (enhance_text L s \<lparr>req_text = x, req_task = ''cleanup''\<rparr>)
                \<and> map_sum id (en_task_update (\<lambda>_. ''cleanup''))
                     (snd (enhance_text L s \<lparr>req_text = x, req_task = t\<rparr>)) =
                   snd (enhance_text L s \<lparr>req_text = x, req_task = ''cleanup''\<rparr>)))"
proof -
  have keys: "map fst prompts = [''cleanup'', ''summarize'', ''action_items'', ''format'']"
    by (simp add: prompts_def)
  have other: "select_prompt t = select_prompt ''cleanup''" if "t \<notin> set (map fst prompts)" for t
    using that unfolding keys by (simp add: select_prompt_eq)
  show ?thesis
    using keys other enhance_text_prompt_only by (simp add: select_prompt_eq)
qed

theorem prompts_table_witness:
  "''translate'' \<notin> set (map fst prompts)
   \<and> select_prompt ''translate'' = select_prompt ''cleanup''
   \<and> snd (enhance_text ex_libs ex_world \<lparr>req_text = ''um hello'', req_task = ''cleanup''\<rparr>) =
       map_sum id (en_task_update (\<lambda>_. ''cleanup''))
         (snd (enhance_text ex_libs ex_world \<lparr>req_text = ''um hello'', req_task = ''translate''\<rparr>))
   \<and> (\<exists>r. snd (enhance_text ex_libs ex_world \<lparr>req_text = ''um hello'', req_task = ''translate''\<rparr>) = Inr r)"
proof -
  have h: "''translate'' \<notin> set (map fst prompts)" by (simp add: prompts_def)
  have r: "\<exists>r. snd (enhance_text ex_libs ex_world \<lparr>req_text = ''um hello'', req_task = ''translate''\<rparr>) = Inr r"
    by (simp add: handler_defs ex_defs Let_def)
  note t = prompts_table [THEN conjunct2, THEN conjunct2, THEN conjunct2, THEN conjunct2,
      THEN conjunct2, rule_format, OF h]
  from t have a: "select_prompt ''translate'' = select_prompt ''cleanup''" by (rule conjunct1)
  from t have "\<forall>L s x.
      fst (enhance_text L s \<lparr>req_text = x, req_task = ''translate''\<rparr>) =
        fst (enhance_text L s \<lparr>req_text = x, req_task = ''cleanup''\<rparr>)
      \<and> map_sum id (en_task_update (\<lambda>_. ''cleanup''))
           (snd (enhance_text L s \<lparr>req_text = x, req_task = ''translate''\<rparr>)) =
         snd (enhance_text L s \<lparr>req_text = x, req_task = ''cleanup''\<rparr>)"
    by (rule conjunct2)
  then have b: "map_sum id (en_task_update (\<lambda>_. ''cleanup''))
           (snd (enhance_text ex_libs ex_world \<lparr>req_text = ''um hello'', req_task = ''translate''\<rparr>)) =
         snd (enhance_text ex_libs ex_world \<lparr>req_text = ''um hello'', req_task = ''cleanup''\<rparr>)"
    by blast
  from h a b r show ?thesis by simp
qed

text \<open>
  Claim C8. Whatever \<open>/enhance\<close> sends to the remote API is one \<open>messages.create\<close>
  call with the model \<open>claude-opus-4-5-20250514\<close>, \<open>max_tokens = 1024\<close> and a single
  user message made of the selected instruction, two newlines (a blank line) and the
  request's text unchanged; a request makes this call or none. When the handler succeeds
  it has made the call, and \<open>enhanced\<close> is the text of the first content block of what
  the call returned.
\<close>

theorem enhance_text_request:
  "enhance_text L s request = (s', res) \<Longrightarrow>
     (\<exists>prompt. select_prompt (req_task request) = Inr prompt
        \<and> (calls s' = calls s
            \<or> (\<exists>key. calls s' = calls s @
                  [MessagesCreate key ''claude-opus-4-5-20250514'' 1024
                     [(''user'', prompt @ [CHR 0x0A, CHR 0x0A] @ req_text request)]]))
        \<and> (\<forall>r. res = Inr r \<longrightarrow>
              (\<exists>key rest.
                 calls s' = calls s @
                  [MessagesCreate key ''claude-opus-4-5-20250514'' 1024
                     [(''user'', prompt @ [CHR 0x0A, CHR 0x0A] @ req_text request)]]
                 \<and> messages_create L key ''claude-opus-4-5-20250514'' 1024
                     [(''user'', prompt @ [CHR 0x0A, CHR 0x0A] @ req_text request)] =
                   Inr (en_enhanced r # rest))))"
proof -
  assume run: "enhance_text L s request = (s', res)"
  obtain prompt where p: "select_prompt (req_task request) = Inr prompt"
    by (simp add: select_prompt_eq)
  let ?msgs = "[(''user'', prompt @ [CHR 0x0A, CHR 0x0A] @ req_text request)]"
  have goal: "(calls s' = calls s
            \<or> (\<exists>key. calls s' = calls s @ [MessagesCreate key ''claude-opus-4-5-20250514'' 1024 ?msgs]))
        \<and> (\<forall>r. res = Inr r \<longrightarrow>
              (\<exists>key rest.
                 calls s' = calls s @ [MessagesCreate key ''claude-opus-4-5-20250514'' 1024 ?msgs]
                 \<and> messages_create L key ''claude-opus-4-5-20250514'' 1024 ?msgs =
                   Inr (en_enhanced r # rest)))"
  proof (cases "get_claude_client s")
    case (Inl e)
    with run p show ?thesis by (auto simp add: enhance_text_def)
  next
    case (Inr key)
    show ?thesis
    proof (cases "messages_create L key ''claude-opus-4-5-20250514'' 1024 ?msgs")
      case (Inl e)
      with run p Inr show ?thesis
        by (auto simp add: enhance_text_def user_message_def claude_model_def Let_def)
    next
      case c: (Inr content)
      with run p Inr show ?thesis
        by (cases content) (auto simp add: enhance_text_def user_message_def claude_model_def Let_def)
    qed
  qed
  with p show ?thesis by blast
qed

theorem enhance_text_request_witness:
  "\<exists>s' r. enhance_text ex_libs ex_world \<lparr>req_text = ''um hello'', req_task = ''summarize''\<rparr> =
       (s', Inr r)
     \<and> calls s' = calls ex_world @
         [MessagesCreate ''sk-test'' ''claude-opus-4-5-20250514'' 1024
            [(''user'', ''Summarize this transcribed speech concisely, capturing the key points:''
                @ [CHR 0x0A, CHR 0x0A] @ ''um hello'')]]
     \<and> messages_create ex_libs ''sk-test'' ''claude-opus-4-5-20250514'' 1024
            [(''user'', ''Summarize this transcribed speech concisely, capturing the key points:''
                @ [CHR 0x0A, CHR 0x0A] @ ''um hello'')] = Inr [en_enhanced r]"
proof -
  let ?req = "\<lparr>req_text = ''um hello'', req_task = ''summarize''\<rparr>"
  obtain s' res where run: "enhance_text ex_libs ex_world ?req = (s', res)"
    by (cases "enhance_text ex_libs ex_world ?req")
  have ok: "\<exists>r. res = Inr r"
    using run by (auto simp add: handler_defs ex_defs Let_def)
  then obtain r where r: "res = Inr r" ..
  have sp: "select_prompt ''summarize'' =
      Inr ''Summarize this transcribed speech concisely, capturing the key points:''"
    by (simp add: select_prompt_eq)
  from enhance_text_request [OF run] r sp
  obtain key rest where
    c: "calls s' = calls ex_world @
         [MessagesCreate key ''claude-opus-4-5-20250514'' 1024
            [(''user'', ''Summarize this transcribed speech concisely, capturing the key points:''
                @ [CHR 0x0A, CHR 0x0A] @ ''um hello'')]]"
    and m: "messages_create ex_libs key ''claude-opus-4-5-20250514'' 1024
            [(''user'', ''Summarize this transcribed speech concisely, capturing the key points:''
                @ [CHR 0x0A, CHR 0x0A] @ ''um hello'')] = Inr (en_enhanced r # rest)"
    by auto
  have k: "calls s' = calls ex_world @
         [MessagesCreate ''sk-test'' ''claude-opus-4-5-20250514'' 1024
            [(''user'', ''Summarize this transcribed speech concisely, capturing the key points:''
                @ [CHR 0x0A, CHR 0x0A] @ ''um hello'')]]"
    using run by (auto simp add: handler_defs ex_defs Let_def)
  from c k have "key = ''sk-test''" by simp
  moreover from m have "rest = []" by (simp add: ex_libs_def)
  ultimately show ?thesis using run r k m by simp
qed

text \<open>
  Claim C10. A successful \<open>/enhance\<close> response carries the request's text in
  \<open>original\<close> and the caller's task string in \<open>task\<close>, unchanged, also when the task
  is not one of the four and the \<open>cleanup\<close> instruction was used.
\<close>

theorem enhance_text_echo:
  "enhance_text L s request = (s', Inr r) \<Longrightarrow>
     en_original r = req_text request \<and> en_task r = req_task request"
  by (auto simp add: enhance_text_def Let_def split: sum.splits list.splits)

theorem enhance_text_echo_witness:
  "snd (enhance_text ex_libs ex_world \<lparr>req_text = ''um hello'', req_task = ''translate''\<rparr>) =
     Inr \<lparr>en_success = True, en_original = ''um hello'',
          en_enhanced = ''Reply to: Clean up this transcribed speech. Fix grammar, punctuation, and formatting while preserving the original meaning. Return only the cleaned text:'' @ [CHR 0x0A, CHR 0x0A] @ ''um hello'',
          en_task = ''translate''\<rparr>"
proof -
  obtain s' res where e: "enhance_text ex_libs ex_world \<lparr>req_text = ''um hello'', req_task = ''translate''\<rparr> = (s', res)"
    by (cases "enhance_text ex_libs ex_world \<lparr>req_text = ''um hello'', req_task = ''translate''\<rparr>")
  have "res = Inr \<lparr>en_success = True, en_original = ''um hello'',
          en_enhanced = ''Reply to: Clean up this transcribed speech. Fix grammar, punctuation, and formatting while preserving the original meaning. Return only the cleaned text:'' @ [CHR 0x0A, CHR 0x0A] @ ''um hello'',
          en_task = ''translate''\<rparr>"
    using e by (simp add: handler_defs ex_defs Let_def)
  with e enhance_text_echo [of ex_libs ex_world "\<lparr>req_text = ''um hello'', req_task = ''translate''\<rparr>" s'] show ?thesis
    by simp
qed

text \<open>
  Claim C2. With no API credential in the environment (unset, or empty) \<open>/enhance\<close>
  fails before any call to the remote API: the state, and with it the list of library
  calls, is unchanged. The \<open>HTTPException(500, "ANTHROPIC_API_KEY not configured")\<close> of
  \<open>get_claude_client\<close> is raised inside the handler's \<open>try\<close> block, so the
  \<open>except Exception\<close> clause catches it and the caller gets a 500 whose detail is
  \<open>"Enhancement failed: "\<close> followed by \<open>str\<close> of that exception: the wrapper every
  failure of the remote call gets, not the message of \<open>get_claude_client\<close>. The witness
  shows the response on a process without a key, and the same response from a remote call
  that failed.
\<close>

theorem enhance_text_missing_credential:
  "environ s ''ANTHROPIC_API_KEY'' = None \<or> environ s ''ANTHROPIC_API_KEY'' = Some [] \<Longrightarrow>
     enhance_text L s request =
       (s, Inl (HTTPException 500
                  (''Enhancement failed: '' @
                     http_exception_str L 500 ''ANTHROPIC_API_KEY not configured'')))"
  by (auto simp add: enhance_text_def get_claude_client_def str_exn_def select_prompt_eq)

theorem enhance_text_missing_credential_witness:
  "enhance_text ex_libs ex_world_nokey \<lparr>req_text = ''um hello'', req_task = ''cleanup''\<rparr> =
     (ex_world_nokey,
      Inl (HTTPException 500 ''Enhancement failed: 500: ANTHROPIC_API_KEY not configured''))
   \<and> snd (enhance_text ex_libs_api_down ex_world \<lparr>req_text = ''um hello'', req_task = ''cleanup''\<rparr>) =
      Inl (HTTPException 500 ''Enhancement failed: 500: ANTHROPIC_API_KEY not configured'')"
proof -
  have h: "environ ex_world_nokey ''ANTHROPIC_API_KEY'' = None"
    by (simp add: ex_world_nokey_def ex_world_def)
  have s: "http_exception_str ex_libs 500 ''ANTHROPIC_API_KEY not configured'' =
      ''500: ANTHROPIC_API_KEY not configured''"
    by (simp add: ex_libs_def show_nat.simps digit_char_def)
  have d: "snd (enhance_text ex_libs_api_down ex_world \<lparr>req_text = ''um hello'', req_task = ''cleanup''\<rparr>) =
      Inl (HTTPException 500 ''Enhancement failed: 500: ANTHROPIC_API_KEY not configured'')"
    by (simp add: handler_defs ex_defs Let_def)
  from enhance_text_missing_credential [OF disjI1, OF h, of ex_libs] s d show ?thesis by simp
qed

subsection \<open>\<open>/transcribe-and-enhance\<close>: sequential composition\<close>

text \<open>
  Claim C3. A successful \<open>/transcribe-and-enhance\<close> response is the composition of the
  two handlers: \<open>/transcribe\<close> on the same upload, from the same state, succeeds with some
  response \<open>t\<close>; \<open>/enhance\<close> then runs on the state \<open>/transcribe\<close> left, on the text of
  \<open>t\<close> and the caller's task, and succeeds with some \<open>e\<close>; \<open>raw_transcription\<close> is the
  text of \<open>t\<close> and \<open>enhanced_text\<close> is the \<open>enhanced\<close> field of \<open>e\<close>; and a standalone
  \<open>/enhance\<close> with that text and task, from the starting state, gives the same \<open>e\<close>.
  The libraries are functions of their arguments: the remote API answers the same request
  the same way.
\<close>

theorem transcribe_and_enhance_composition:
  assumes run: "transcribe_and_enhance L s audio tsk = (s', Inr r)"
  shows "\<exists>s1 t e.
           transcribe_audio L s audio = (s1, Inr t)
         \<and> enhance_text L s1 \<lparr>req_text = tr_text t, req_task = tsk\<rparr> = (s', Inr e)
         \<and> snd (enhance_text L s \<lparr>req_text = tr_text t, req_task = tsk\<rparr>) = Inr e
         \<and> raw_transcription r = tr_text t
         \<and> enhanced_text r = en_enhanced e"
proof -
  obtain s1 r1 where tr: "transcribe_audio L s audio = (s1, r1)"
    by (cases "transcribe_audio L s audio")
  show ?thesis
  proof (cases r1)
    case (Inl x)
    from transcribe_and_enhance_Inl1 [OF tr [unfolded Inl], of tsk] run
    show ?thesis by simp
  next
    case t: (Inr t)
    let ?req = "\<lparr>req_text = tr_text t, req_task = tsk\<rparr>"
    obtain s2 r2 where en: "enhance_text L s1 ?req = (s2, r2)"
      by (cases "enhance_text L s1 ?req")
    show ?thesis
    proof (cases r2)
      case (Inl x)
      from transcribe_and_enhance_Inl2 [OF tr [unfolded t] en [unfolded Inl]] run
      show ?thesis by simp
    next
      case e: (Inr e)
      from transcribe_and_enhance_Inr [OF tr [unfolded t] en [unfolded e]] run
      have s': "s' = s2"
        and r: "r = \<lparr>success = True, raw_transcription = tr_text t,
                 enhanced_text = en_enhanced e, language = tr_language t, task = tsk\<rparr>"
        by simp_all
      have "environ s = environ s1"
        using transcribe_audio_environ [of L s audio] tr by simp
      then have "snd (enhance_text L s ?req) = snd (enhance_text L s1 ?req)"
        by (rule enhance_text_result_environ)
      with en e have alone: "snd (enhance_text L s ?req) = Inr e" by simp
      have a: "transcribe_audio L s audio = (s1, Inr t)" using tr t by simp
      have b: "enhance_text L s1 ?req = (s', Inr e)" using en e s' by simp
      have c: "raw_transcription r = tr_text t" using r by simp
      have d: "enhanced_text r = en_enhanced e" using r by simp
      from a b alone c d show ?thesis by blast
    qed
  qed
qed

theorem transcribe_and_enhance_composition_witness:
  "snd (transcribe_and_enhance ex_libs ex_world ex_audio ''summarize'') =
     Inr \<lparr>success = True, raw_transcription = ''hello world'',
          enhanced_text = ''Reply to: Summarize this transcribed speech concisely, capturing the key points:'' @ [CHR 0x0A, CHR 0x0A] @ ''hello world'',
          language = ''en'', task = ''summarize''\<rparr>
   \<and> (\<exists>t e. snd (transcribe_audio ex_libs ex_world ex_audio) = Inr t
         \<and> tr_text t = ''hello world''
         \<and> snd (enhance_text ex_libs ex_world \<lparr>req_text = ''hello world'', req_task = ''summarize''\<rparr>) = Inr e
         \<and> en_enhanced e = ''Reply to: Summarize this transcribed speech concisely, capturing the key points:'' @ [CHR 0x0A, CHR 0x0A] @ ''hello world'')"
proof -
  let ?out = "\<lparr>success = True, raw_transcription = ''hello world'',
          enhanced_text = ''Reply to: Summarize this transcribed speech concisely, capturing the key points:'' @ [CHR 0x0A, CHR 0x0A] @ ''hello world'',
          language = ''en'', task = ''summarize''\<rparr>"
  have res: "snd (transcribe_and_enhance ex_libs ex_world ex_audio ''summarize'') = Inr ?out"
    by (simp add: handler_defs ex_defs Let_def)
  obtain s' where run: "transcribe_and_enhance ex_libs ex_world ex_audio ''summarize'' = (s', Inr ?out)"
    using res by (cases "transcribe_and_enhance ex_libs ex_world ex_audio ''summarize''") simp
  from transcribe_and_enhance_composition [OF run]
  obtain s1 t e where
    a: "transcribe_audio ex_libs ex_world ex_audio = (s1, Inr t)" and
    b: "snd (enhance_text ex_libs ex_world \<lparr>req_text = tr_text t, req_task = ''summarize''\<rparr>) = Inr e" and
    c: "raw_transcription ?out = tr_text t" and
    d: "enhanced_text ?out = en_enhanced e"
    by blast
  from c have c': "tr_text t = ''hello world''" by simp
  from d have d': "en_enhanced e = ''Reply to: Summarize this transcribed speech concisely, capturing the key points:'' @ [CHR 0x0A, CHR 0x0A] @ ''hello world''"
    by simp
  from a have a': "snd (transcribe_audio ex_libs ex_world ex_audio) = Inr t" by simp
  from b c' have b': "snd (enhance_text ex_libs ex_world \<lparr>req_text = ''hello world'', req_task = ''summarize''\<rparr>) = Inr e"
    by simp
  from a' c' b' d' have "\<exists>t e. snd (transcribe_audio ex_libs ex_world ex_audio) = Inr t
         \<and> tr_text t = ''hello world''
         \<and> snd (enhance_text ex_libs ex_world \<lparr>req_text = ''hello world'', req_task = ''summarize''\<rparr>) = Inr e
         \<and> en_enhanced e = ''Reply to: Summarize this transcribed speech concisely, capturing the key points:'' @ [CHR 0x0A, CHR 0x0A] @ ''hello world''"
    by blast
  with res show ?thesis by (rule conjI)
qed

subsection \<open>\<open>/transcribe\<close>: the temporary file and the \<open>finally\<close> clause\<close>

text \<open>
  Claim C1, as the code has it. Once the upload is stored at \<open>p\<close> and the \<open>try\<close>
  block has determined the outcome (the response, or the \<open>HTTPException\<close> of the
  \<open>except\<close> clause), the \<open>finally\<close> clause calls \<open>os.unlink(p)\<close> with nothing around
  it: when the deletion succeeds the handler ends with the outcome determined, and when it
  raises, its exception leaves the handler in place of that outcome. The deletion is the
  only library call the clause makes: nothing is logged.
\<close>

theorem transcribe_audio_unlink_outcome:
  assumes named: "\<not> (filename audio = None \<or> filename audio = Some [])"
    and stored: "store_upload L s audio = (s1, Inr p)"
    and tried: "transcribe_try L s1 p = (s2, outcome)"
  shows "snd (transcribe_audio L s audio) =
           (case unlink_error L p of None \<Rightarrow> outcome | Some e \<Rightarrow> Inl e)
         \<and> calls (fst (transcribe_audio L s audio)) = calls s2 @ [OsUnlink p]"
proof -
  from store_upload_file [OF stored] obtain c where "files s1 p = Some c" ..
  moreover have "files s2 = files s1"
    using transcribe_try_files [of L s1 p] tried by simp
  ultimately have f: "files s2 p = Some c" by simp
  have run: "transcribe_audio L s audio = transcribe_finally L s2 p outcome"
    by (rule transcribe_audio_stored [OF named stored tried])
  have result: "snd (transcribe_audio L s audio) =
           (case unlink_error L p of None \<Rightarrow> outcome | Some e \<Rightarrow> Inl e)"
  proof (cases "unlink_error L p")
    case None
    with transcribe_finally_removed [OF f None, of outcome] run show ?thesis by simp
  next
    case (Some e)
    with transcribe_finally_refused [OF f Some, of outcome] run show ?thesis by simp
  qed
  have made: "calls (fst (transcribe_audio L s audio)) = calls s2 @ [OsUnlink p]"
    using run by (simp add: transcribe_finally_calls)
  from result made show ?thesis ..
qed

theorem transcribe_audio_unlink_outcome_witness:
  "snd (transcribe_audio ex_libs ex_world ex_audio) =
     Inr \<lparr>tr_success = True, tr_text = ''hello world'', tr_language = ''en''\<rparr>
   \<and> snd (transcribe_audio ex_libs_locked ex_world ex_audio) =
     Inl (PyException ''PermissionError'' (''[Errno 13] Permission denied: '' @ quote ex_tmp))"
proof -
  have s1: "store_upload ex_libs ex_world ex_audio =
      (fst (store_upload ex_libs ex_world ex_audio), Inr ex_tmp)"
    using ex_store(1) by (simp add: prod_eq_iff)
  have t1: "transcribe_try ex_libs (fst (store_upload ex_libs ex_world ex_audio)) ex_tmp =
      (fst (transcribe_try ex_libs (fst (store_upload ex_libs ex_world ex_audio)) ex_tmp),
       Inr \<lparr>tr_success = True, tr_text = ''hello world'', tr_language = ''en''\<rparr>)"
    using ex_try(1) by (simp add: prod_eq_iff)
  have s2: "store_upload ex_libs_locked ex_world ex_audio =
      (fst (store_upload ex_libs_locked ex_world ex_audio), Inr ex_tmp)"
    using ex_store(2) by (simp add: prod_eq_iff)
  have t2: "transcribe_try ex_libs_locked (fst (store_upload ex_libs_locked ex_world ex_audio)) ex_tmp =
      (fst (transcribe_try ex_libs_locked (fst (store_upload ex_libs_locked ex_world ex_audio)) ex_tmp),
       Inr \<lparr>tr_success = True, tr_text = ''hello world'', tr_language = ''en''\<rparr>)"
    using ex_try(2) by (simp add: prod_eq_iff)
  from transcribe_audio_unlink_outcome [OF ex_named s1 t1, THEN conjunct1]
    transcribe_audio_unlink_outcome [OF ex_named s2 t2, THEN conjunct1]
  show ?thesis by (simp add: ex_unlink_error)
qed

text \<open>
  The claim as the specification states it, that a failed deletion never reaches the
  caller and never changes the outcome, fails on a file system that refuses the deletion:
  the transcription succeeded, or failed with its \<open>HTTPException(500)\<close>, and the caller
  gets the \<open>PermissionError\<close> of \<open>os.unlink\<close> either way.
\<close>

theorem transcribe_audio_unlink_failure_counterexample:
  "snd (store_upload ex_libs_locked ex_world ex_audio) = Inr ex_tmp
   \<and> snd (transcribe_try ex_libs_locked (fst (store_upload ex_libs_locked ex_world ex_audio)) ex_tmp) =
       Inr \<lparr>tr_success = True, tr_text = ''hello world'', tr_language = ''en''\<rparr>
   \<and> snd (transcribe_audio ex_libs_locked ex_world ex_audio) =
       Inl (PyException ''PermissionError'' (''[Errno 13] Permission denied: '' @ quote ex_tmp))
   \<and> snd (store_upload ex_libs_locked ex_world_bogus ex_audio) = Inr ex_tmp
   \<and> snd (transcribe_try ex_libs_locked (fst (store_upload ex_libs_locked ex_world_bogus ex_audio)) ex_tmp) =
       Inl (HTTPException 500 ''Transcription failed: Model bogus not found'')
   \<and> snd (transcribe_audio ex_libs_locked ex_world_bogus ex_audio) =
       Inl (PyException ''PermissionError'' (''[Errno 13] Permission denied: '' @ quote ex_tmp))"
proof -
  have a: "snd (transcribe_audio ex_libs_locked ex_world ex_audio) =
       Inl (PyException ''PermissionError'' (''[Errno 13] Permission denied: '' @ quote ex_tmp))"
    by (simp add: handler_defs ex_defs Let_def)
  have b: "snd (transcribe_audio ex_libs_locked ex_world_bogus ex_audio) =
       Inl (PyException ''PermissionError'' (''[Errno 13] Permission denied: '' @ quote ex_tmp))"
    by (simp add: handler_defs ex_defs Let_def)
  from ex_store ex_try a b show ?thesis by simp
qed

text \<open>
  Claim C5, as the code has it. When the upload has been stored at \<open>p\<close> (the handler
  reached its \<open>try\<close> block) and \<open>os.unlink(p)\<close> does not raise, no file is at \<open>p\<close>
  when the handler ends, whether the transcription succeeded or failed.
\<close>

theorem transcribe_audio_removes_file:
  assumes named: "\<not> (filename audio = None \<or> filename audio = Some [])"
    and stored: "store_upload L s audio = (s1, Inr p)"
    and unlinks: "unlink_error L p = None"
  shows "files (fst (transcribe_audio L s audio)) p = None"
proof -
  obtain s2 outcome where tried: "transcribe_try L s1 p = (s2, outcome)"
    by (cases "transcribe_try L s1 p")
  from store_upload_file [OF stored] obtain c where "files s1 p = Some c" ..
  moreover have "files s2 = files s1"
    using transcribe_try_files [of L s1 p] tried by simp
  ultimately have f: "files s2 p = Some c" by simp
  have run: "transcribe_audio L s audio = transcribe_finally L s2 p outcome"
    by (rule transcribe_audio_stored [OF named stored tried])
  with transcribe_finally_removed [OF f unlinks, of outcome] show ?thesis by simp
qed

theorem transcribe_audio_removes_file_witness:
  "snd (store_upload ex_libs ex_world ex_audio) = Inr ex_tmp
   \<and> files (fst (store_upload ex_libs ex_world ex_audio)) ex_tmp = Some ''RIFF''
   \<and> unlink_error ex_libs ex_tmp = None
   \<and> files (fst (transcribe_audio ex_libs ex_world ex_audio)) ex_tmp = None"
proof -
  have s1: "store_upload ex_libs ex_world ex_audio =
      (fst (store_upload ex_libs ex_world ex_audio), Inr ex_tmp)"
    using ex_store(1) by (simp add: prod_eq_iff)
  have f: "files (fst (store_upload ex_libs ex_world ex_audio)) ex_tmp = Some ''RIFF''"
    by (simp add: handler_defs ex_defs Let_def)
  from transcribe_audio_removes_file [OF ex_named s1 ex_unlink_error(1)] f ex_store(1) ex_unlink_error(1)
  show ?thesis by simp
qed

text \<open>
  The claim as the specification states it, on every exit path, fails where the deletion
  itself fails: the file is still there when the handler has ended.
\<close>

theorem transcribe_audio_file_left_counterexample:
  "snd (store_upload ex_libs_locked ex_world ex_audio) = Inr ex_tmp
   \<and> files (fst (store_upload ex_libs_locked ex_world ex_audio)) ex_tmp = Some ''RIFF''
   \<and> files (fst (transcribe_audio ex_libs_locked ex_world ex_audio)) ex_tmp = Some ''RIFF''"
  by (simp add: handler_defs ex_defs Let_def)

text \<open>
  The \<open>with\<close> block of lines 71-74 is outside the \<open>try\<close>: when reading the upload or
  writing the file raises, the file \<open>NamedTemporaryFile(delete=False)\<close> created stays,
  empty, and \<open>os.unlink\<close> is never called.
\<close>

theorem transcribe_audio_leaks_unwritten_file:
  assumes named: "\<not> (filename audio = None \<or> filename audio = Some [])"
    and made: "mktemp L (upload_suffix L audio) (files s) = Inr p"
    and broke: "read_result audio = Inl e \<or>
                (\<exists>c. read_result audio = Inr c \<and> write_error L p c = Some e)"
  shows "snd (transcribe_audio L s audio) = Inl e
         \<and> files (fst (transcribe_audio L s audio)) p = Some []
         \<and> OsUnlink p \<notin> set (calls (fst (transcribe_audio L s audio))) - set (calls s)"
proof -
  obtain s1 where st: "store_upload L s audio = (s1, Inl e)" and f: "files s1 p = Some []"
    and c: "OsUnlink p \<notin> set (calls s1) - set (calls s)"
    using made broke by (auto simp add: store_upload_def Let_def)
  from transcribe_audio_unstored [OF named st] f c show ?thesis by simp
qed

theorem transcribe_audio_leaks_unwritten_file_witness:
  "mktemp ex_libs (upload_suffix ex_libs ex_audio_gone) (files ex_world) = Inr ex_tmp
   \<and> snd (transcribe_audio ex_libs ex_world ex_audio_gone) = Inl (PyException ''ClientDisconnect'' [])
   \<and> files (fst (transcribe_audio ex_libs ex_world ex_audio_gone)) ex_tmp = Some []
   \<and> OsUnlink ex_tmp \<notin> set (calls (fst (transcribe_audio ex_libs ex_world ex_audio_gone)))"
proof -
  have n: "\<not> (filename ex_audio_gone = None \<or> filename ex_audio_gone = Some [])"
    by (simp add: ex_audio_gone_def)
  have m: "mktemp ex_libs (upload_suffix ex_libs ex_audio_gone) (files ex_world) = Inr ex_tmp"
    by (simp add: upload_suffix_def ex_defs Let_def)
  have r: "read_result ex_audio_gone = Inl (PyException ''ClientDisconnect'' [])"
    by (simp add: ex_audio_gone_def)
  have c: "calls ex_world = []" by (simp add: ex_world_def)
  from transcribe_audio_leaks_unwritten_file [OF n m disjI1, OF r] m c show ?thesis by simp
qed

subsection \<open>The model handle in a sequential execution\<close>

text \<open>
  Claim C7, as the code has it. While the handle is empty, \<open>get_whisper_model\<close> calls
  \<open>whisper.load_model\<close> with the configured name: when the call returns a model the
  handle is set to it, and over any sequence of requests served from that state at most
  one load is made; when the call raises, the exception leaves \<open>get_whisper_model\<close> and
  the handle stays empty. Once the handle holds a model, \<open>get_whisper_model\<close> returns it
  without loading, and after any sequence of requests the handle is still that model and
  no load has been made.
\<close>

theorem whisper_model_loaded_once:
  "(whisper_model s = None \<and> load_model L (getenv_or s ''WHISPER_MODEL'' ''base'') = Inr m \<longrightarrow>
      get_whisper_model L s =
        ((log_call (LoadModel (getenv_or s ''WHISPER_MODEL'' ''base'')) s)\<lparr>whisper_model := Some m\<rparr>,
         Inr m)
      \<and> loads (serve L s rs) \<le> Suc (loads s))
   \<and> (whisper_model s = None \<and> load_model L (getenv_or s ''WHISPER_MODEL'' ''base'') = Inl e \<longrightarrow>
      get_whisper_model L s =
        (log_call (LoadModel (getenv_or s ''WHISPER_MODEL'' ''base'')) s, Inl e))
   \<and> (whisper_model s = Some m \<longrightarrow>
      get_whisper_model L s = (s, Inr m)
      \<and> whisper_model (serve L s rs) = Some m
      \<and> loads (serve L s rs) = loads s)"
proof (intro conjI impI)
  assume a: "whisper_model s = None \<and> load_model L (getenv_or s ''WHISPER_MODEL'' ''base'') = Inr m"
  then show "get_whisper_model L s =
        ((log_call (LoadModel (getenv_or s ''WHISPER_MODEL'' ''base'')) s)\<lparr>whisper_model := Some m\<rparr>,
         Inr m)"
    by (simp add: get_whisper_model_first)
  from a have "idle_or_loaded m s (serve L s rs)" by (simp add: serve_first)
  then show "loads (serve L s rs) \<le> Suc (loads s)" by (auto simp add: idle_or_loaded_def)
next
  assume "whisper_model s = None \<and> load_model L (getenv_or s ''WHISPER_MODEL'' ''base'') = Inl e"
  then show "get_whisper_model L s =
        (log_call (LoadModel (getenv_or s ''WHISPER_MODEL'' ''base'')) s, Inl e)"
    by (simp add: get_whisper_model_failed)
next
  assume b: "whisper_model s = Some m"
  then show "get_whisper_model L s = (s, Inr m)" by (rule get_whisper_model_kept)
  from serve_kept [OF b, of L rs]
  show "whisper_model (serve L s rs) = Some m" and "loads (serve L s rs) = loads s"
    by (simp_all add: kept_def)
qed

theorem whisper_model_loaded_once_witness:
  "whisper_model ex_world = None
   \<and> load_model ex_libs (getenv_or ex_world ''WHISPER_MODEL'' ''base'') = Inr (Handle 0)
   \<and> get_whisper_model ex_libs ex_world =
       ((log_call (LoadModel ''base'') ex_world)\<lparr>whisper_model := Some (Handle 0)\<rparr>, Inr (Handle 0))
   \<and> loads (serve ex_libs ex_world [PostTranscribe ex_audio, PostTranscribe ex_audio]) \<le> Suc (loads ex_world)
   \<and> loads (serve ex_libs ex_world [PostTranscribe ex_audio, PostTranscribe ex_audio]) = 1
   \<and> load_model ex_libs (getenv_or ex_world_bogus ''WHISPER_MODEL'' ''base'') =
       Inl (PyException ''RuntimeError'' ''Model bogus not found'')
   \<and> get_whisper_model ex_libs ex_world_bogus =
       (log_call (LoadModel ''bogus'') ex_world_bogus,
        Inl (PyException ''RuntimeError'' ''Model bogus not found''))
   \<and> whisper_model (serve ex_libs (ex_world\<lparr>whisper_model := Some (Handle 0)\<rparr>)
        [PostTranscribe ex_audio, PostEnhance \<lparr>req_text = ''um hello'', req_task = ''cleanup''\<rparr>]) =
       Some (Handle 0)
   \<and> loads (serve ex_libs (ex_world\<lparr>whisper_model := Some (Handle 0)\<rparr>)
        [PostTranscribe ex_audio, PostEnhance \<lparr>req_text = ''um hello'', req_task = ''cleanup''\<rparr>]) =
       loads (ex_world\<lparr>whisper_model := Some (Handle 0)\<rparr>)"
proof -
  let ?rs = "[PostTranscribe ex_audio, PostTranscribe ex_audio]"
  let ?qs = "[PostTranscribe ex_audio, PostEnhance \<lparr>req_text = ''um hello'', req_task = ''cleanup''\<rparr>]"
  let ?w = "ex_world\<lparr>whisper_model := Some (Handle 0)\<rparr>"
  have n: "whisper_model ex_world = None" by (simp add: ex_defs)
  have g: "getenv_or ex_world ''WHISPER_MODEL'' ''base'' = ''base''"
    by (simp add: getenv_or_def ex_defs)
  have ok: "load_model ex_libs (getenv_or ex_world ''WHISPER_MODEL'' ''base'') = Inr (Handle 0)"
    by (simp add: g ex_libs_def)
  have nb: "whisper_model ex_world_bogus = None" by (simp add: ex_defs)
  have gb: "getenv_or ex_world_bogus ''WHISPER_MODEL'' ''base'' = ''bogus''"
    by (simp add: getenv_or_def ex_defs)
  have bad: "load_model ex_libs (getenv_or ex_world_bogus ''WHISPER_MODEL'' ''base'') =
       Inl (PyException ''RuntimeError'' ''Model bogus not found'')"
    by (simp add: gb ex_libs_def)
  have w: "whisper_model ?w = Some (Handle 0)" by simp
  have one: "loads (serve ex_libs ex_world ?rs) = 1"
    by (simp add: handler_defs ex_defs loads_def Let_def)
  note first = whisper_model_loaded_once [of ex_world ex_libs "Handle 0" ?rs, THEN conjunct1, rule_format, OF conjI, OF n ok]
  note failed = whisper_model_loaded_once [of ex_world_bogus ex_libs "Handle 0" ?rs
      "PyException ''RuntimeError'' ''Model bogus not found''", THEN conjunct2, THEN conjunct1, rule_format, OF conjI, OF nb bad]
  note later = whisper_model_loaded_once [of ?w ex_libs "Handle 0" ?qs, THEN conjunct2, THEN conjunct2, rule_format, OF w]
  from first have f1: "get_whisper_model ex_libs ex_world =
       ((log_call (LoadModel ''base'') ex_world)\<lparr>whisper_model := Some (Handle 0)\<rparr>, Inr (Handle 0))"
    and f2: "loads (serve ex_libs ex_world ?rs) \<le> Suc (loads ex_world)"
    by (simp_all add: g)
  from failed have f3: "get_whisper_model ex_libs ex_world_bogus =
       (log_call (LoadModel ''bogus'') ex_world_bogus,
        Inl (PyException ''RuntimeError'' ''Model bogus not found''))"
    by (simp add: gb)
  from later have f4: "whisper_model (serve ex_libs ?w ?qs) = Some (Handle 0)"
    and f5: "loads (serve ex_libs ?w ?qs) = loads ?w"
    by simp_all
  from n ok f1 f2 one bad f3 f4 f5 show ?thesis by (intro conjI)
qed

text \<open>
  The claim as the specification states it, that the first invocation loads the model and
  sets the handle and that at most one load occurs, fails when \<open>whisper.load_model\<close>
  raises (here on a model name the library does not know): the handle stays empty after
  the first request, and two requests make two loads.
\<close>

theorem whisper_model_failed_load_counterexample:
  "whisper_model ex_world_bogus = None
   \<and> loads ex_world_bogus = 0
   \<and> get_whisper_model ex_libs ex_world_bogus =
       (log_call (LoadModel ''bogus'') ex_world_bogus,
        Inl (PyException ''RuntimeError'' ''Model bogus not found''))
   \<and> whisper_model (serve ex_libs ex_world_bogus [PostTranscribe ex_audio]) = None
   \<and> loads (serve ex_libs ex_world_bogus [PostTranscribe ex_audio, PostTranscribe ex_audio]) = 2"
proof -
  have a: "whisper_model ex_world_bogus = None" "loads ex_world_bogus = 0"
    by (simp_all add: ex_defs loads_def)
  have b: "get_whisper_model ex_libs ex_world_bogus =
       (log_call (LoadModel ''bogus'') ex_world_bogus,
        Inl (PyException ''RuntimeError'' ''Model bogus not found''))"
    by (simp add: get_whisper_model_def getenv_or_def ex_defs Let_def)
  have c: "whisper_model (serve ex_libs ex_world_bogus [PostTranscribe ex_audio]) = None"
    by (simp add: handler_defs ex_defs Let_def)
  have d: "loads (serve ex_libs ex_world_bogus [PostTranscribe ex_audio, PostTranscribe ex_audio]) = 2"
    by (simp add: handler_defs ex_defs loads_def Let_def)
  from a b c d show ?thesis by simp
qed

end
